theory Spec2Isabelle
  imports Main "HOL-Library.Word" "HOL-Library.Sublist" "HOL-Library.AList"
begin

section \<open>Python values\<close>

text \<open>
  The component of \<^verbatim>\<open>trinity/components/eth2/network_generator/component.py\<close>
  handles dynamically typed values: the parsed JSON document found at the output path, the
  genesis configuration returned by the functions of \<^verbatim>\<open>eth2.genesis\<close>, and the
  arguments of the command line. They are modelled by one datatype of Python objects.
  A \<^verbatim>\<open>float\<close> is kept as sign, mantissa and binary exponent (or an infinity, or
  not-a-number): the component only ever asks whether it is zero.
  A \<^verbatim>\<open>dict\<close> is an association list with string keys, in insertion order.
\<close>

datatype pyfloat = Finite bool nat int | Infinity bool | NaN

datatype pyobj =
    PNone
  | PBool bool
  | PInt int
  | PFloat pyfloat
  | PStr string
  | PBytes "8 word list"
  | PList "pyobj list"
  | PDict "(string \<times> pyobj) list"
  | PObject string

text \<open>Truth value testing, as \<^verbatim>\<open>if x:\<close>, \<^verbatim>\<open>x and y\<close> and \<^verbatim>\<open>x or y\<close> apply it.\<close>

fun truthy :: "pyobj \<Rightarrow> bool" where
  "truthy PNone = False"
| "truthy (PBool b) = b"
| "truthy (PInt i) = (i \<noteq> 0)"
| "truthy (PFloat (Finite s m e)) = (m \<noteq> 0)"
| "truthy (PFloat (Infinity s)) = True"
| "truthy (PFloat NaN) = True"
| "truthy (PStr s) = (s \<noteq> [])"
| "truthy (PBytes bs) = (bs \<noteq> [])"
| "truthy (PList xs) = (xs \<noteq> [])"
| "truthy (PDict kvs) = (kvs \<noteq> [])"
| "truthy (PObject n) = True"

text \<open>
  An optional integer argument of the command line (\<^verbatim>\<open>type=int\<close>, default
  \<^verbatim>\<open>None\<close>) under truth value testing: \<^verbatim>\<open>None\<close> and \<^verbatim>\<open>0\<close> are both false.
\<close>

fun arg_truthy :: "int option \<Rightarrow> bool" where
  "arg_truthy None = False"
| "arg_truthy (Some i) = truthy (PInt i)"

section \<open>The encoder of binary values\<close>

text \<open>
  \<^verbatim>\<open>bytes.hex()\<close>: two digits per byte, the high nibble first, digits taken from
  \<^verbatim>\<open>0123456789abcdef\<close>.
\<close>

definition hex_digit :: "nat \<Rightarrow> char" where
  "hex_digit n = ''0123456789abcdef'' ! n"

definition byte_hex :: "8 word \<Rightarrow> string" where
  "byte_hex b = [hex_digit (unat b div 16), hex_digit (unat b mod 16)]"

definition bytes_hex :: "8 word list \<Rightarrow> string" where
  "bytes_hex bs = concat (map byte_hex bs)"

datatype error =
    UnboundLocalError string
  | KeyError string
  | TypeError
  | FileNotFoundError
  | FileExistsError
  | NotADirectoryError
  | IsADirectoryError
  | UnicodeDecodeError
  | RecursionError
  | CollaboratorError string

text \<open>
  \<^verbatim>\<open>BytesJsonEncoder.default\<close>: the hook that \<^verbatim>\<open>json\<close> calls on a value it cannot
  render itself. A \<^verbatim>\<open>bytes\<close> value becomes the string of its hexadecimal digits; on
  anything else the inherited \<^verbatim>\<open>JSONEncoder.default\<close> raises \<^verbatim>\<open>TypeError\<close>.
\<close>

fun BytesJsonEncoder_default :: "pyobj \<Rightarrow> error + pyobj" where
  "BytesJsonEncoder_default (PBytes bs) = Inr (PStr (bytes_hex bs))"
| "BytesJsonEncoder_default obj = Inl TypeError"



section \<open>Resolving the genesis time\<close>

text \<open>
  Lines 97 to 104 of the component: the local variable \<^verbatim>\<open>genesis_time\<close> is bound to
  \<^verbatim>\<open>args.genesis_time\<close> when that is truthy, else to
  \<^verbatim>\<open>int(time.time()) + args.genesis_delay\<close> when the delay is truthy, and is left
  unbound otherwise. \<open>None\<close> stands for the unbound variable; \<open>now\<close> is the clock reading in
  whole seconds.
\<close>

definition resolve_genesis_time :: "int option \<Rightarrow> int option \<Rightarrow> int \<Rightarrow> int option" where
  "resolve_genesis_time explicit_time delay now =
     (case (arg_truthy explicit_time, explicit_time) of
        (True, Some t) \<Rightarrow> Some t
      | _ \<Rightarrow>
          (case (arg_truthy delay, delay) of
             (True, Some d) \<Rightarrow> Some (now + d)
           | _ \<Rightarrow> None))"


section \<open>The file system, the clock and the log\<close>

text \<open>
  A path is the list of its components with the last component first, so that the parent of
  a path is its tail and the root is the empty list (its own parent, as for
  \<^verbatim>\<open>pathlib\<close>). The file system maps a path to a directory or to a regular file with
  its text; the root is always a directory.
\<close>

type_synonym path = "string list"

datatype node = Dir | File string

type_synonym filesystem = "path \<Rightarrow> node option"

definition parent :: "path \<Rightarrow> path" where
  "parent p = tl p"

definition node_at :: "filesystem \<Rightarrow> path \<Rightarrow> node option" where
  "node_at fs p = (if p = [] then Some Dir else fs p)"

text \<open>\<^verbatim>\<open>Path.exists()\<close> and \<^verbatim>\<open>Path.is_dir()\<close>.\<close>

definition path_exists :: "filesystem \<Rightarrow> path \<Rightarrow> bool" where
  "path_exists fs p = (node_at fs p \<noteq> None)"

definition is_dir :: "filesystem \<Rightarrow> path \<Rightarrow> bool" where
  "is_dir fs p = (node_at fs p = Some Dir)"

text \<open>
  In a file system every node lies in a directory. The operations below are defined on any
  map; on a map of this shape they are the operating system's.
\<close>

definition wf_fs :: "filesystem \<Rightarrow> bool" where
  "wf_fs fs = (\<forall>p. fs p \<noteq> None \<longrightarrow> is_dir fs (parent p))"

text \<open>\<^verbatim>\<open>open(path, "r")\<close> followed by reading the whole file.\<close>

definition open_read :: "filesystem \<Rightarrow> path \<Rightarrow> error + string" where
  "open_read fs p =
     (case node_at fs p of
        None \<Rightarrow> Inl FileNotFoundError
      | Some Dir \<Rightarrow> Inl IsADirectoryError
      | Some (File s) \<Rightarrow> Inr s)"

text \<open>
  \<^verbatim>\<open>open(path, "w")\<close>: the file is created or truncated; a directory cannot be opened
  for writing, and the parent has to be a directory.
\<close>

definition open_write :: "filesystem \<Rightarrow> path \<Rightarrow> error + filesystem" where
  "open_write fs p =
     (case node_at fs p of
        Some Dir \<Rightarrow> Inl IsADirectoryError
      | _ \<Rightarrow>
          (case node_at fs (parent p) of
             None \<Rightarrow> Inl FileNotFoundError
           | Some (File s) \<Rightarrow> Inl NotADirectoryError
           | Some Dir \<Rightarrow> Inr (fs(p \<mapsto> File []))))"

text \<open>The system call \<^verbatim>\<open>mkdir\<close>: one directory, whose parent has to be there.\<close>

definition os_mkdir :: "filesystem \<Rightarrow> path \<Rightarrow> error + filesystem" where
  "os_mkdir fs p =
     (if path_exists fs p then Inl FileExistsError
      else
        (case node_at fs (parent p) of
           None \<Rightarrow> Inl FileNotFoundError
         | Some (File s) \<Rightarrow> Inl NotADirectoryError
         | Some Dir \<Rightarrow> Inr (fs(p \<mapsto> Dir))))"

text \<open>
  \<^verbatim>\<open>Path.mkdir(parents=False, exist_ok=True)\<close>: a missing parent is an error; any other
  error of the system call is swallowed when the path is a directory already.
\<close>

definition mkdir_exist_ok :: "filesystem \<Rightarrow> path \<Rightarrow> error + filesystem" where
  "mkdir_exist_ok fs p =
     (case os_mkdir fs p of
        Inr fs' \<Rightarrow> Inr fs'
      | Inl e \<Rightarrow>
          if e = FileNotFoundError then Inl e
          else if is_dir fs p then Inr fs
          else Inl e)"

text \<open>
  \<^verbatim>\<open>Path.mkdir(parents=True, exist_ok=True)\<close>, as \<^verbatim>\<open>pathlib\<close> implements it: try the
  system call; when the parent is missing, make the parent the same way and then this
  directory without \<^verbatim>\<open>parents\<close>; swallow any other error when the path is a directory.
\<close>

fun mkdir_parents :: "filesystem \<Rightarrow> path \<Rightarrow> error + filesystem" where
  "mkdir_parents fs [] =
     (case os_mkdir fs [] of
        Inr fs' \<Rightarrow> Inr fs'
      | Inl e \<Rightarrow> if e \<noteq> FileNotFoundError \<and> is_dir fs [] then Inr fs else Inl e)"
| "mkdir_parents fs (c # rest) =
     (case os_mkdir fs (c # rest) of
        Inr fs' \<Rightarrow> Inr fs'
      | Inl e \<Rightarrow>
          if e = FileNotFoundError then
            (case mkdir_parents fs rest of
               Inl e' \<Rightarrow> Inl e'
             | Inr fs' \<Rightarrow> mkdir_exist_ok fs' (c # rest))
          else if is_dir fs (c # rest) then Inr fs
          else Inl e)"

text \<open>\<^verbatim>\<open>Path.is_file()\<close>.\<close>

definition is_file :: "filesystem \<Rightarrow> path \<Rightarrow> bool" where
  "is_file fs p = (case node_at fs p of Some (File s) \<Rightarrow> True | _ \<Rightarrow> False)"

text \<open>No regular file stands where a directory of the path \<open>p\<close> has to be.\<close>

fun no_file_on :: "filesystem \<Rightarrow> path \<Rightarrow> bool" where
  "no_file_on fs [] = True"
| "no_file_on fs (c # rest) = (\<not> is_file fs (c # rest) \<and> no_file_on fs rest)"

datatype level = INFO | WARNING

datatype logarg = LogObj pyobj | LogPath path | LogError string

type_synonym log_record = "level \<times> string \<times> logarg list"

text \<open>What a run reads and changes: the files, the clock (whole seconds) and the log.\<close>

record world =
  files :: filesystem
  clock :: int
  logs :: "log_record list"

definition logger_emit :: "level \<Rightarrow> string \<Rightarrow> logarg list \<Rightarrow> world \<Rightarrow> world" where
  "logger_emit lvl msg as w = w\<lparr>logs := logs w @ [(lvl, msg, as)]\<rparr>"

section \<open>Collaborators\<close>

text \<open>
  What the component imports and calls is a parameter of the model: the default output path
  of \<^verbatim>\<open>BeaconChainConfig\<close>, the three functions of \<^verbatim>\<open>eth2.genesis\<close> (each may
  raise), \<^verbatim>\<open>json.load\<close>, the text that \<^verbatim>\<open>json\<close> gives a tree of values it renders
  itself, and \<^verbatim>\<open>time.strftime\<close> of \<^verbatim>\<open>time.localtime\<close>.

  \<^verbatim>\<open>json.load\<close> reads the open file and parses what it read. It returns the parsed
  document, or raises \<^verbatim>\<open>JSONDecodeError\<close> with a message, or raises something else:
  \<^verbatim>\<open>UnicodeDecodeError\<close> when the bytes of the file are not text in the encoding of
  the file object, \<^verbatim>\<open>RecursionError\<close> when the document nests too deep. The content
  of a regular file is the string of its bytes.
\<close>

datatype load_outcome = Loaded pyobj | JSONDecodeError string | Raised error

record env =
  get_genesis_config_file_path :: "string \<Rightarrow> path"
  json_load :: "string \<Rightarrow> load_outcome"
  json_text :: "pyobj \<Rightarrow> string"
  strftime_localtime :: "pyobj \<Rightarrow> error + string"
  generate_genesis_config :: "string \<Rightarrow> int \<Rightarrow> error + pyobj"
  genesis_config_from_state :: "string \<Rightarrow> path option \<Rightarrow> filesystem \<Rightarrow> error + pyobj"
  update_genesis_config_with_time :: "pyobj \<Rightarrow> int \<Rightarrow> error + pyobj"

text \<open>
  Modelled from the spec: \<^verbatim>\<open>update_genesis_config_with_time\<close> of
  \<^verbatim>\<open>eth2.genesis\<close> is not among the sources. The spec's update mode takes the existing
  artifact, rewrites its \<^verbatim>\<open>genesis_state.genesis_time\<close> to the resolved time and
  carries every other field over unchanged.
\<close>

fun spec_update_genesis_config_with_time :: "pyobj \<Rightarrow> int \<Rightarrow> error + pyobj" where
  "spec_update_genesis_config_with_time (PDict kvs) t =
     (case map_of kvs ''genesis_state'' of
        None \<Rightarrow> Inl (KeyError ''genesis_state'')
      | Some (PDict st) \<Rightarrow>
          Inr (PDict (AList.update ''genesis_state''
                 (PDict (AList.update ''genesis_time'' (PInt t) st)) kvs))
      | Some other \<Rightarrow> Inl TypeError)"
| "spec_update_genesis_config_with_time obj t = Inl TypeError"

section \<open>Serialization\<close>

text \<open>\<^verbatim>\<open>obj[key]\<close> with a string key: only a \<^verbatim>\<open>dict\<close> can be subscripted by one.\<close>

fun getitem :: "pyobj \<Rightarrow> string \<Rightarrow> error + pyobj" where
  "getitem (PDict kvs) k = (case map_of kvs k of None \<Rightarrow> Inl (KeyError k) | Some v \<Rightarrow> Inr v)"
| "getitem obj k = Inl TypeError"

text \<open>
  The walk of \<^verbatim>\<open>json.dump(..., cls=BytesJsonEncoder)\<close> over the tree: lists and
  dictionaries are walked, values that \<^verbatim>\<open>json\<close> renders itself stay, and any other
  value is replaced by what the \<^verbatim>\<open>default\<close> hook returns for it (a string here, which
  is rendered as it is). The first error ends the walk.
\<close>

fun encode_tree :: "pyobj \<Rightarrow> error + pyobj"
  and encode_list :: "pyobj list \<Rightarrow> error + pyobj list"
  and encode_items :: "(string \<times> pyobj) list \<Rightarrow> error + (string \<times> pyobj) list" where
  "encode_tree PNone = Inr PNone"
| "encode_tree (PBool b) = Inr (PBool b)"
| "encode_tree (PInt i) = Inr (PInt i)"
| "encode_tree (PFloat f) = Inr (PFloat f)"
| "encode_tree (PStr s) = Inr (PStr s)"
| "encode_tree (PBytes bs) = BytesJsonEncoder_default (PBytes bs)"
| "encode_tree (PObject n) = BytesJsonEncoder_default (PObject n)"
| "encode_tree (PList xs) =
     (case encode_list xs of Inl e \<Rightarrow> Inl e | Inr ys \<Rightarrow> Inr (PList ys))"
| "encode_tree (PDict kvs) =
     (case encode_items kvs of Inl e \<Rightarrow> Inl e | Inr kvs' \<Rightarrow> Inr (PDict kvs'))"
| "encode_list [] = Inr []"
| "encode_list (x # xs) =
     (case encode_tree x of
        Inl e \<Rightarrow> Inl e
      | Inr y \<Rightarrow> (case encode_list xs of Inl e \<Rightarrow> Inl e | Inr ys \<Rightarrow> Inr (y # ys)))"
| "encode_items [] = Inr []"
| "encode_items ((k, v) # kvs) =
     (case encode_tree v of
        Inl e \<Rightarrow> Inl e
      | Inr v' \<Rightarrow>
          (case encode_items kvs of Inl e \<Rightarrow> Inl e | Inr kvs' \<Rightarrow> Inr ((k, v') # kvs')))"

text \<open>
  The values that \<^verbatim>\<open>json\<close> renders without the \<^verbatim>\<open>default\<close> hook; a document
  returned by \<^verbatim>\<open>json.load\<close> holds no other.
\<close>

fun json_native :: "pyobj \<Rightarrow> bool"
  and json_native_list :: "pyobj list \<Rightarrow> bool"
  and json_native_items :: "(string \<times> pyobj) list \<Rightarrow> bool" where
  "json_native PNone = True"
| "json_native (PBool b) = True"
| "json_native (PInt i) = True"
| "json_native (PFloat f) = True"
| "json_native (PStr s) = True"
| "json_native (PBytes bs) = False"
| "json_native (PObject n) = False"
| "json_native (PList xs) = json_native_list xs"
| "json_native (PDict kvs) = json_native_items kvs"
| "json_native_list [] = True"
| "json_native_list (x # xs) = (json_native x \<and> json_native_list xs)"
| "json_native_items [] = True"
| "json_native_items ((k, v) # kvs) = (json_native v \<and> json_native_items kvs)"

definition json_dumps :: "env \<Rightarrow> pyobj \<Rightarrow> error + string" where
  "json_dumps E cfg =
     (case encode_tree cfg of Inl e \<Rightarrow> Inl e | Inr native \<Rightarrow> Inr (json_text E native))"

section \<open>The command\<close>

record args =
  config_profile :: string
  args_output :: "path option"
  genesis_time :: "int option"
  genesis_delay :: "int option"
  genesis_state :: "path option"

text \<open>
  Lines 84 to 87: the output path (\<open>args_output\<close> is \<^verbatim>\<open>args.output\<close>). A path object is
  always truthy.
\<close>

definition output_file_path :: "env \<Rightarrow> args \<Rightarrow> path" where
  "output_file_path E a =
     (case args_output a of
        Some p \<Rightarrow> p
      | None \<Rightarrow> get_genesis_config_file_path E (config_profile a))"

text \<open>
  Lines 89 to 95: the local variable \<^verbatim>\<open>existing_genesis_config\<close>. It is bound only
  when the path exists: to the parsed document, or to \<^verbatim>\<open>None\<close> with a warning when
  \<^verbatim>\<open>json.load\<close> raises \<^verbatim>\<open>JSONDecodeError\<close>. The \<^verbatim>\<open>except\<close> clause of line 93
  names that exception only: whatever else \<^verbatim>\<open>open\<close> or \<^verbatim>\<open>json.load\<close> raises ends
  the run. The outer \<open>None\<close> is the variable left unbound.
\<close>

definition load_existing :: "env \<Rightarrow> world \<Rightarrow> path \<Rightarrow> error + (pyobj option \<times> world)" where
  "load_existing E w p =
     (if path_exists (files w) p then
        (case open_read (files w) p of
           Inl e \<Rightarrow> Inl e
         | Inr text \<Rightarrow>
             (case json_load E text of
                Loaded v \<Rightarrow> Inr (Some v, w)
              | JSONDecodeError msg \<Rightarrow>
                  Inr (Some PNone,
                       logger_emit WARNING ''failed to load existing config as json: %s''
                         [LogError msg] w)
              | Raised e \<Rightarrow> Inl e))
      else Inr (None, w))"


text \<open>Lines 97 to 104 with their log lines.\<close>

definition resolve_time_step :: "args \<Rightarrow> world \<Rightarrow> int option \<times> world" where
  "resolve_time_step a w =
     (let t = resolve_genesis_time (genesis_time a) (genesis_delay a) (clock w) in
      if arg_truthy (genesis_time a) then
        (t, logger_emit INFO ''genesis time specified from config: %d''
              [LogObj (case t of None \<Rightarrow> PNone | Some v \<Rightarrow> PInt v)] w)
      else if arg_truthy (genesis_delay a) then
        (t, logger_emit INFO ''genesis delay specified from config: %d''
              [LogObj (case genesis_delay a of None \<Rightarrow> PNone | Some d \<Rightarrow> PInt d)] w)
      else (t, w))"

text \<open>
  Lines 106 to 115: which collaborator builds the configuration. The condition
  \<^verbatim>\<open>(args.genesis_time or args.genesis_delay) and existing_genesis_config\<close> reads the
  local variable only when one of the two arguments is truthy; reading an unbound local
  raises \<^verbatim>\<open>UnboundLocalError\<close>.
\<close>

definition build_genesis_config ::
    "env \<Rightarrow> args \<Rightarrow> filesystem \<Rightarrow> pyobj option \<Rightarrow> int option \<Rightarrow> error + pyobj" where
  "build_genesis_config E a fs existing t =
     (if arg_truthy (genesis_time a) \<or> arg_truthy (genesis_delay a) then
        (case existing of
           None \<Rightarrow> Inl (UnboundLocalError ''existing_genesis_config'')
         | Some ex \<Rightarrow>
             (case t of
                None \<Rightarrow> Inl (UnboundLocalError ''genesis_time'')
              | Some T \<Rightarrow>
                  if truthy ex then update_genesis_config_with_time E ex T
                  else generate_genesis_config E (config_profile a) T))
      else genesis_config_from_state E (config_profile a) (genesis_state a) fs)"

text \<open>
  Lines 126 to 128: make the parent directories, open the file for writing and dump the
  configuration into it.
\<close>

definition write_output :: "env \<Rightarrow> filesystem \<Rightarrow> path \<Rightarrow> pyobj \<Rightarrow> error + filesystem" where
  "write_output E fs p cfg =
     (case mkdir_parents fs (parent p) of
        Inl e \<Rightarrow> Inl e
      | Inr fs1 \<Rightarrow>
          (case open_write fs1 p of
             Inl e \<Rightarrow> Inl e
           | Inr fs2 \<Rightarrow>
               (case json_dumps E cfg of
                  Inl e \<Rightarrow> Inl e
                | Inr text \<Rightarrow> Inr (fs2(p \<mapsto> File text)))))"

text \<open>Lines 117 to 128: the summary line of the log, then the write.\<close>

definition report_and_write :: "env \<Rightarrow> world \<Rightarrow> path \<Rightarrow> pyobj \<Rightarrow> error + world" where
  "report_and_write E w p cfg =
     (case getitem cfg ''genesis_state'' of
        Inl e \<Rightarrow> Inl e
      | Inr st \<Rightarrow>
          (case getitem st ''genesis_time'' of
             Inl e \<Rightarrow> Inl e
           | Inr gt \<Rightarrow>
               (case getitem cfg ''genesis_state_root'' of
                  Inl e \<Rightarrow> Inl e
                | Inr root \<Rightarrow>
                    (case strftime_localtime E gt of
                       Inl e \<Rightarrow> Inl e
                     | Inr human \<Rightarrow>
                         (let w1 = logger_emit INFO
                                (''configuration generated; genesis state has root %s '' @
                                 ''with genesis time %d (%s); writing to '' @ [CHR 0x27] @
                                 ''%s'' @ [CHR 0x27])
                                [LogObj root, LogObj gt, LogObj (PStr human), LogPath p] w
                          in case write_output E (files w1) p cfg of
                               Inl e \<Rightarrow> Inl e
                             | Inr fs' \<Rightarrow> Inr (w1\<lparr>files := fs'\<rparr>))))))"

text \<open>\<^verbatim>\<open>NetworkGeneratorComponent._generate_network_as_json\<close>.\<close>

definition generate_network_as_json :: "env \<Rightarrow> args \<Rightarrow> world \<Rightarrow> error + world" where
  "generate_network_as_json E a w =
     (let w1 = logger_emit INFO ''using config profile: %s'' [LogObj (PStr (config_profile a))] w;
          p = output_file_path E a
      in case load_existing E w1 p of
           Inl e \<Rightarrow> Inl e
         | Inr (existing, w2) \<Rightarrow>
             (case resolve_time_step a w2 of
                (t, w3) \<Rightarrow>
                  (case build_genesis_config E a (files w3) existing t of
                     Inl e \<Rightarrow> Inl e
                   | Inr cfg \<Rightarrow> report_and_write E w3 p cfg)))"


section \<open>A concrete setting\<close>

text \<open>
  One instance of the collaborators, for evaluating the command on concrete inputs: a
  generator and a state importer that return a small configuration with a binary state
  root, the update of the spec, a renderer that knows three documents, and a parser that
  knows two and refuses the byte \<^verbatim>\<open>FF\<close>, which no UTF-8 text contains.
\<close>

definition old_config :: pyobj where
  "old_config =
     PDict [(''profile'', PStr ''minimal''),
            (''genesis_state'', PDict [(''genesis_time'', PInt 1600000000), (''slot'', PInt 0)]),
            (''genesis_state_root'', PStr ''deadbeef'')]"

definition old_text :: string where
  \<open>old_text =
     ''{"profile": "minimal", "genesis_state": {"genesis_time": 1600000000, "slot": 0}, '' @
     ''"genesis_state_root": "deadbeef"}''\<close>

definition fresh_config :: "string \<Rightarrow> int \<Rightarrow> pyobj" where
  "fresh_config profile t =
     PDict [(''profile'', PStr profile),
            (''genesis_state'', PDict [(''genesis_time'', PInt t), (''slot'', PInt 0)]),
            (''genesis_state_root'', PBytes [0xca, 0xfe])]"

definition example_env :: env where
  \<open>example_env =
     \<lparr>get_genesis_config_file_path = (\<lambda>profile. [''genesis.json'', profile, ''eth2'']),
      json_load =
        (\<lambda>text. if CHR 0xFF \<in> set text then Raised UnicodeDecodeError
                else if text = ''{}'' then Loaded (PDict [])
                else if text = old_text then Loaded old_config
                else JSONDecodeError ''Expecting value: line 1 column 1 (char 0)''),
      json_text =
        (\<lambda>v. if v = PDict [(''profile'', PStr ''minimal''),
                             (''genesis_state'',
                                PDict [(''genesis_time'', PInt 1700000000), (''slot'', PInt 0)]),
                             (''genesis_state_root'', PStr ''deadbeef'')]
              then ''{"profile": "minimal", "genesis_state": {"genesis_time": 1700000000, '' @
                   ''"slot": 0}, "genesis_state_root": "deadbeef"}''
              else if v = PDict [(''profile'', PStr ''minimal''),
                                  (''genesis_state'',
                                     PDict [(''genesis_time'', PInt 1700000600), (''slot'', PInt 0)]),
                                  (''genesis_state_root'', PStr ''cafe'')]
              then ''{"profile": "minimal", "genesis_state": {"genesis_time": 1700000600, '' @
                   ''"slot": 0}, "genesis_state_root": "cafe"}''
              else if v = PDict [(''profile'', PStr ''minimal''),
                                  (''genesis_state'',
                                     PDict [(''genesis_time'', PInt 1500000000), (''slot'', PInt 0)]),
                                  (''genesis_state_root'', PStr ''cafe'')]
              then ''{"profile": "minimal", "genesis_state": {"genesis_time": 1500000000, '' @
                   ''"slot": 0}, "genesis_state_root": "cafe"}''
              else ''null''),
      strftime_localtime =
        (\<lambda>v. case v of PInt t \<Rightarrow> Inr ''2023-11-14 10:13+0000'' | _ \<Rightarrow> Inl TypeError),
      generate_genesis_config = (\<lambda>profile t. Inr (fresh_config profile t)),
      genesis_config_from_state =
        (\<lambda>profile state fs.
           case state of
             None \<Rightarrow> Inl TypeError
           | Some p \<Rightarrow>
               (case node_at fs p of
                  Some (File s) \<Rightarrow> Inr (fresh_config profile 1500000000)
                | _ \<Rightarrow> Inl FileNotFoundError)),
      update_genesis_config_with_time = spec_update_genesis_config_with_time\<rparr>\<close>

definition example_args :: args where
  "example_args =
     \<lparr>config_profile = ''minimal'', args_output = Some [''genesis.json'', ''net'', ''tmp''],
      genesis_time = None, genesis_delay = Some 600, genesis_state = None\<rparr>"

definition explicit_time_args :: args where
  "explicit_time_args = example_args\<lparr>genesis_time := Some 1700000000, genesis_delay := None\<rparr>"

definition state_file_args :: args where
  "state_file_args =
     example_args\<lparr>genesis_delay := None, genesis_state := Some [''state.ssz'', ''tmp'']\<rparr>"

text \<open>
  A world with the directories \<^verbatim>\<open>/tmp\<close> and \<^verbatim>\<open>/tmp/net\<close>, a state file, and
  \<open>n\<close> at the output path \<^verbatim>\<open>/tmp/net/genesis.json\<close>.
\<close>

definition example_files :: "node option \<Rightarrow> filesystem" where
  "example_files n =
     (\<lambda>p. if p = [''tmp''] \<or> p = [''net'', ''tmp''] then Some Dir
          else if p = [''state.ssz'', ''tmp''] then Some (File ''ssz'')
          else if p = [''genesis.json'', ''net'', ''tmp''] then n
          else None)"

definition example_world :: "node option \<Rightarrow> world" where
  "example_world n = \<lparr>files = example_files n, clock = 1700000000, logs = []\<rparr>"

section \<open>Auxiliary notions of the proofs\<close>

text \<open>The file system after the directories of the path \<open>q\<close> have been made.\<close>

definition with_dirs :: "filesystem \<Rightarrow> path \<Rightarrow> filesystem" where
  "with_dirs fs q = (\<lambda>x. if x \<noteq> [] \<and> suffix x q \<and> fs x = None then Some Dir else fs x)"

text \<open>
  The character code of the lowercase hexadecimal digit of a value below sixteen: the
  digits \<^verbatim>\<open>0\<close> to \<^verbatim>\<open>9\<close> have the codes 48 to 57, the letters \<^verbatim>\<open>a\<close> to
  \<^verbatim>\<open>f\<close> the codes 97 to 102.
\<close>

definition lower_hex_code :: "nat \<Rightarrow> nat" where
  "lower_hex_code n = (if n < 10 then 48 + n else 87 + n)"

text \<open>The world after the first log line of the command.\<close>

definition announced :: "args \<Rightarrow> world \<Rightarrow> world" where
  "announced a w =
     logger_emit INFO ''using config profile: %s'' [LogObj (PStr (config_profile a))] w"

section \<open>Facts about the file system\<close>

lemma node_at_root [simp]: "node_at fs [] = Some Dir"
  by (simp add: node_at_def)

lemma node_at_Cons [simp]: "node_at fs (c # rest) = fs (c # rest)"
  by (simp add: node_at_def)

lemma parent_simps [simp]: "parent [] = []" "parent (c # rest) = rest"
  by (simp_all add: parent_def)

lemma wf_fs_parent: "wf_fs fs \<Longrightarrow> fs (c # rest) \<noteq> None \<Longrightarrow> is_dir fs rest"
  unfolding wf_fs_def by (metis parent_simps(2))

lemma wf_fs_suffix_dir:
  "wf_fs fs \<Longrightarrow> is_dir fs p \<Longrightarrow> suffix x p \<Longrightarrow> is_dir fs x"
proof (induction p)
  case Nil
  then show ?case by simp
next
  case (Cons c rest)
  show ?case
  proof (cases "x = c # rest")
    case True
    with Cons.prems show ?thesis by simp
  next
    case False
    with Cons.prems have "suffix x rest" by (simp add: suffix_Cons)
    moreover from Cons.prems have "is_dir fs rest"
      by (auto simp: is_dir_def intro: wf_fs_parent [unfolded is_dir_def])
    ultimately show ?thesis using Cons.IH Cons.prems(1) by blast
  qed
qed

lemma not_suffix_Cons_self [simp]: "\<not> suffix (c # rest) rest"
  using suffix_length_le by fastforce

lemma with_dirs_existing:
  assumes "wf_fs fs" "is_dir fs q"
  shows "with_dirs fs q = fs"
proof
  fix x
  show "with_dirs fs q x = fs x"
  proof (cases "x \<noteq> [] \<and> suffix x q")
    case True
    then have "is_dir fs x" using wf_fs_suffix_dir [OF assms] by blast
    with True show ?thesis by (cases x) (auto simp: with_dirs_def is_dir_def)
  next
    case False
    then show ?thesis by (auto simp: with_dirs_def)
  qed
qed

lemma mkdir_parents_ok:
  "wf_fs fs \<Longrightarrow> no_file_on fs q \<Longrightarrow> mkdir_parents fs q = Inr (with_dirs fs q)"
proof (induction q)
  case Nil
  have "with_dirs fs [] = fs" by (auto simp: with_dirs_def)
  then show ?case by (simp add: os_mkdir_def path_exists_def is_dir_def)
next
  case (Cons c rest)
  from Cons.prems have nf: "\<not> is_file fs (c # rest)" and nfr: "no_file_on fs rest" by simp_all
  show ?case
  proof (cases "fs (c # rest)")
    case (Some n)
    with nf have d: "is_dir fs (c # rest)" by (cases n) (auto simp: is_file_def is_dir_def)
    then have "with_dirs fs (c # rest) = fs" using with_dirs_existing Cons.prems(1) by blast
    with d Some show ?thesis by (simp add: os_mkdir_def path_exists_def)
  next
    case None
    have nfrest: "\<not> is_file fs rest" using nfr by (cases rest) (simp_all add: is_file_def)
    show ?thesis
    proof (cases "node_at fs rest")
      case N: None
      from Cons.IH [OF Cons.prems(1) nfr] have rec: "mkdir_parents fs rest = Inr (with_dirs fs rest)" .
      from N have restne: "rest \<noteq> []" by (auto simp: node_at_def)
      have a: "with_dirs fs rest (c # rest) = None" using None by (simp add: with_dirs_def)
      have b: "node_at (with_dirs fs rest) rest = Some Dir"
        using N restne by (cases rest) (auto simp: with_dirs_def)
      have c: "(with_dirs fs rest)(c # rest \<mapsto> Dir) = with_dirs fs (c # rest)"
        using None by (auto simp: with_dirs_def suffix_Cons fun_eq_iff)
      show ?thesis using None N rec a b c
        by (simp add: os_mkdir_def path_exists_def mkdir_exist_ok_def)
    next
      case S: (Some n)
      with nfrest have d: "is_dir fs rest" by (cases n) (auto simp: is_file_def is_dir_def)
      then have "with_dirs fs rest = fs" using with_dirs_existing Cons.prems(1) by blast
      then have "fs(c # rest \<mapsto> Dir) = with_dirs fs (c # rest)"
        using None by (auto simp: with_dirs_def suffix_Cons fun_eq_iff split: if_splits)
      with d None show ?thesis by (simp add: os_mkdir_def path_exists_def is_dir_def)
    qed
  qed
qed

section \<open>Facts about the serialization\<close>

lemma encode_native_all:
  "(json_native v \<longrightarrow> encode_tree v = Inr v)"
  "(json_native_list xs \<longrightarrow> encode_list xs = Inr xs)"
  "(json_native_items kvs \<longrightarrow> encode_items kvs = Inr kvs)"
  by (induction v and xs and kvs rule: encode_tree_encode_list_encode_items.induct) simp_all

lemma encode_native: "json_native v \<Longrightarrow> encode_tree v = Inr v"
  by (simp add: encode_native_all)

lemma json_native_items_update:
  "json_native_items kvs \<Longrightarrow> json_native v \<Longrightarrow> json_native_items (AList.update k v kvs)"
  by (induction kvs) (auto)

lemma json_native_items_lookup:
  "json_native_items kvs \<Longrightarrow> map_of kvs k = Some v \<Longrightarrow> json_native v"
  by (induction kvs) (auto split: if_splits)


lemma write_output_ok:
  assumes wf: "wf_fs fs" and nf: "no_file_on fs (parent p)" and nd: "\<not> is_dir fs p"
    and enc: "encode_tree cfg = Inr native"
  shows "write_output E fs p cfg = Inr ((with_dirs fs (parent p))(p \<mapsto> File (json_text E native)))"
proof -
  from nd obtain c rest where p: "p = c # rest" by (cases p) (auto simp: is_dir_def)
  have m: "mkdir_parents fs rest = Inr (with_dirs fs rest)"
    using mkdir_parents_ok [OF wf] nf p by simp
  have a: "with_dirs fs rest (c # rest) = fs (c # rest)" by (simp add: with_dirs_def)
  have "\<not> is_file fs rest" using nf p by (cases rest) (simp_all add: is_file_def)
  then have b: "node_at (with_dirs fs rest) rest = Some Dir"
    by (cases rest) (auto simp: with_dirs_def is_file_def split: option.splits node.splits)
  have c: "with_dirs fs rest (c # rest) \<noteq> Some Dir" using a nd p by (simp add: is_dir_def)
  show ?thesis using m b c
    by (simp add: write_output_def p open_write_def json_dumps_def enc
             split: option.splits node.splits)
qed

section \<open>Facts about the command\<close>

lemma resolve_Some_truthy:
  "resolve_genesis_time gt gd now = Some T \<Longrightarrow> arg_truthy gt \<or> arg_truthy gd"
  by (cases gt; cases gd) (auto simp: resolve_genesis_time_def split: if_splits bool.splits)


lemma files_logger_emit [simp]: "files (logger_emit lvl msg as w) = files w"
  by (simp add: logger_emit_def)

lemma clock_logger_emit [simp]: "clock (logger_emit lvl msg as w) = clock w"
  by (simp add: logger_emit_def)

lemma resolve_time_step_fst [simp]:
  "fst (resolve_time_step a w) = resolve_genesis_time (genesis_time a) (genesis_delay a) (clock w)"
  by (simp add: resolve_time_step_def Let_def)

lemma resolve_time_step_files [simp]: "files (snd (resolve_time_step a w)) = files w"
  by (simp add: resolve_time_step_def Let_def)

lemma resolve_time_step_clock [simp]: "clock (snd (resolve_time_step a w)) = clock w"
  by (simp add: resolve_time_step_def Let_def)

lemma run_unfold:
  "generate_network_as_json E a w =
     (case load_existing E (announced a w) (output_file_path E a) of
        Inl e \<Rightarrow> Inl e
      | Inr (existing, w2) \<Rightarrow>
          (case build_genesis_config E a (files w2) existing
                  (resolve_genesis_time (genesis_time a) (genesis_delay a) (clock w2)) of
             Inl e \<Rightarrow> Inl e
           | Inr cfg \<Rightarrow>
               report_and_write E (snd (resolve_time_step a w2)) (output_file_path E a) cfg))"
  by (simp add: generate_network_as_json_def announced_def Let_def case_prod_beta
           cong: sum.case_cong)

lemma report_and_write_ok:
  assumes "getitem cfg ''genesis_state'' = Inr st"
    and "getitem st ''genesis_time'' = Inr gt"
    and "getitem cfg ''genesis_state_root'' = Inr root"
    and "strftime_localtime E gt = Inr human"
    and "encode_tree cfg = Inr native"
    and "wf_fs (files w)" and "no_file_on (files w) (parent p)" and "\<not> is_dir (files w) p"
  shows "\<exists>w'. report_and_write E w p cfg = Inr w' \<and>
           files w' = (with_dirs (files w) (parent p))(p \<mapsto> File (json_text E native)) \<and>
           clock w' = clock w \<and> set (logs w) \<subseteq> set (logs w')"
  using assms by (auto simp: report_and_write_def Let_def write_output_ok logger_emit_def)

lemma wf_fs_existing_no_file_on:
  assumes "wf_fs fs" "fs (c # rest) \<noteq> None"
  shows "no_file_on fs rest"
proof -
  have d: "is_dir fs rest" using wf_fs_parent [OF assms] .
  have "\<And>x. suffix x rest \<Longrightarrow> is_dir fs x" using wf_fs_suffix_dir [OF assms(1) d] .
  then show ?thesis
  proof (induction rest)
    case Nil
    then show ?case by simp
  next
    case (Cons b r)
    have "is_dir fs (b # r)" using Cons.prems [of "b # r"] by simp
    moreover have "no_file_on fs r" using Cons.IH Cons.prems by (simp add: suffix_Cons)
    ultimately show ?case by (simp add: is_dir_def is_file_def)
  qed
qed

lemma map_of_update_other: "k' \<noteq> k \<Longrightarrow> map_of (AList.update k v al) k' = map_of al k'"
  by (simp add: update_conv')

lemma map_of_update_same: "map_of (AList.update k v al) k = Some v"
  by (simp add: update_conv')

lemma keys_update_present: "map_of al k = Some u \<Longrightarrow> map fst (AList.update k v al) = map fst al"
  by (induction al) (auto split: if_splits)

lemma wf_example: "wf_fs (example_files n)"
  by (auto simp: wf_fs_def example_files_def is_dir_def node_at_def parent_def split: if_splits)

lemma example_path [simp]:
  "output_file_path example_env example_args = [''genesis.json'', ''net'', ''tmp'']"
  "output_file_path example_env explicit_time_args = [''genesis.json'', ''net'', ''tmp'']"
  "output_file_path example_env state_file_args = [''genesis.json'', ''net'', ''tmp'']"
  by (simp_all add: output_file_path_def example_args_def explicit_time_args_def state_file_args_def)

lemma example_resolve:
  "resolve_genesis_time (genesis_time example_args) (genesis_delay example_args)
     (clock (example_world n)) = Some 1700000600"
  "resolve_genesis_time (genesis_time explicit_time_args) (genesis_delay explicit_time_args)
     (clock (example_world n)) = Some 1700000000"
  "resolve_genesis_time (genesis_time state_file_args) (genesis_delay state_file_args)
     (clock (example_world n)) = None"
  by (simp_all add: resolve_genesis_time_def example_args_def explicit_time_args_def
        state_file_args_def example_world_def)

lemma example_node [simp]:
  "files (example_world n) [''genesis.json'', ''net'', ''tmp''] = n"
  by (simp add: example_world_def example_files_def)

lemma example_fresh:
  "getitem (fresh_config profile t) ''genesis_state'' =
     Inr (PDict [(''genesis_time'', PInt t), (''slot'', PInt 0)])"
  "getitem (PDict [(''genesis_time'', PInt t), (''slot'', PInt 0)]) ''genesis_time'' = Inr (PInt t)"
  "getitem (fresh_config profile t) ''genesis_state_root'' = Inr (PBytes [0xca, 0xfe])"
  "encode_tree (fresh_config profile t) =
     Inr (PDict [(''profile'', PStr profile),
                 (''genesis_state'', PDict [(''genesis_time'', PInt t), (''slot'', PInt 0)]),
                 (''genesis_state_root'', PStr ''cafe'')])"
  by (simp_all add: fresh_config_def bytes_hex_def byte_hex_def hex_digit_def)


section \<open>The time source and the encoder\<close>

text \<open>
  Claim C2, as the code has it: an explicit time other than zero, with no delay, is the
  resolved time, whatever the clock reads. (Line 97 tests \<^verbatim>\<open>args.genesis_time\<close> for
  truth, so the time zero counts as not given.)
\<close>

theorem resolve_explicit_time_nonzero:
  "t \<noteq> 0 \<Longrightarrow> resolve_genesis_time (Some t) None now = Some t"
  by (simp add: resolve_genesis_time_def)

text \<open>C2 at the time 1700000000.\<close>

theorem resolve_explicit_time_nonzero_witness:
  "(1700000000::int) \<noteq> 0 \<and> resolve_genesis_time (Some 1700000000) None 1600000000 = Some 1700000000"
proof -
  have h: "(1700000000::int) \<noteq> 0" by simp
  from resolve_explicit_time_nonzero [OF h] h show ?thesis by simp
qed

text \<open>
  C2 as stated fails at the explicit time zero: no time is resolved there, and so the
  result is not the explicit time.
\<close>

theorem resolve_explicit_time_zero_counterexample:
  "resolve_genesis_time (Some 0) None 1700000000 \<noteq> Some 0"
  by (simp add: resolve_genesis_time_def)

text \<open>
  Claim C3, as the code has it: a delay other than zero, with no explicit time, resolves to
  the clock reading plus the delay. (Line 100 tests \<^verbatim>\<open>args.genesis_delay\<close> for truth,
  so the delay zero counts as not given.)
\<close>

theorem resolve_delay_nonzero:
  "d \<noteq> 0 \<Longrightarrow> resolve_genesis_time None (Some d) now = Some (now + d)"
  by (simp add: resolve_genesis_time_def)

text \<open>C3 at the delay 600 and the clock reading 1700000000.\<close>

theorem resolve_delay_nonzero_witness:
  "(600::int) \<noteq> 0 \<and> resolve_genesis_time None (Some 600) 1700000000 = Some 1700000600"
proof -
  have h: "(600::int) \<noteq> 0" by simp
  from resolve_delay_nonzero [OF h, of 1700000000] h show ?thesis by simp
qed

text \<open>
  C3 as stated fails at the delay zero: no time is resolved there, where the claim expects
  the clock reading.
\<close>

theorem resolve_delay_zero_counterexample:
  "resolve_genesis_time None (Some 0) 1700000000 \<noteq> Some (1700000000 + 0)"
  by (simp add: resolve_genesis_time_def)



lemma hex_digit_lower_all:
  "list_all (\<lambda>n. hex_digit n \<in> set ''0123456789abcdef'') [0..<16]"
  by code_simp

lemma hex_digit_lower: "n < 16 \<Longrightarrow> hex_digit n \<in> set ''0123456789abcdef''"
  using hex_digit_lower_all by (simp only: list_all_iff) auto

lemma byte_nibbles: "unat (b :: 8 word) div 16 < 16" "unat b mod 16 < 16"
proof -
  have "unat b < 256" using unsigned_less [of b, where 'a = nat] by simp
  then show "unat b div 16 < 16" by simp
  show "unat b mod 16 < 16" by simp
qed




lemma set_byte_hex: "set (byte_hex b) \<subseteq> set ''0123456789abcdef''"
  using hex_digit_lower [OF byte_nibbles(1), of b] hex_digit_lower [OF byte_nibbles(2), of b]
  by (simp add: byte_hex_def)

lemma set_bytes_hex: "set (bytes_hex bs) \<subseteq> set ''0123456789abcdef''"
  using set_byte_hex by (induction bs) (auto simp: bytes_hex_def)

lemma length_bytes_hex: "length (bytes_hex bs) = 2 * length bs"
  by (induction bs) (simp_all add: bytes_hex_def byte_hex_def)

lemma of_char_hex_digit_all:
  "list_all (\<lambda>n. of_char (hex_digit n) = lower_hex_code n) [0..<16]"
  by code_simp

lemma of_char_hex_digit: "n < 16 \<Longrightarrow> of_char (hex_digit n) = lower_hex_code n"
  using of_char_hex_digit_all by (simp only: list_all_iff) auto

lemma bytes_hex_Cons:
  "bytes_hex (b # bs) =
     hex_digit (unat b div 16) # hex_digit (unat b mod 16) # bytes_hex bs"
  by (simp add: bytes_hex_def byte_hex_def)

lemma nth_bytes_hex:
  "i < length bs \<Longrightarrow>
     bytes_hex bs ! (2 * i) = hex_digit (unat (bs ! i) div 16) \<and>
     bytes_hex bs ! (2 * i + 1) = hex_digit (unat (bs ! i) mod 16)"
proof (induction bs arbitrary: i)
  case Nil
  then show ?case by simp
next
  case (Cons b bs)
  show ?case
  proof (cases i)
    case 0
    then show ?thesis by (simp add: bytes_hex_Cons)
  next
    case (Suc j)
    with Cons.prems have "j < length bs" by simp
    from Cons.IH [OF this] Suc show ?thesis by (simp add: bytes_hex_Cons)
  qed
qed

text \<open>
  Claim C9: the serializer's hook turns a byte string into the string of its lowercase
  hexadecimal digits, with no prefix: two characters per byte, the first the digit of the
  high half of the byte and the second the digit of its low half, each a digit
  \<^verbatim>\<open>0\<close> to \<^verbatim>\<open>9\<close> or a letter \<^verbatim>\<open>a\<close> to \<^verbatim>\<open>f\<close>; and the string does not start
  with \<^verbatim>\<open>0x\<close>.
\<close>

theorem bytes_encoded_as_lowercase_hex:
  "BytesJsonEncoder_default (PBytes bs) = Inr (PStr (bytes_hex bs)) \<and>
   length (bytes_hex bs) = 2 * length bs \<and>
   (\<forall>i<length bs.
      of_char (bytes_hex bs ! (2 * i)) = lower_hex_code (unat (bs ! i) div 16) \<and>
      of_char (bytes_hex bs ! (2 * i + 1)) = lower_hex_code (unat (bs ! i) mod 16)) \<and>
   set (bytes_hex bs) \<subseteq> set ''0123456789abcdef'' \<and>
   \<not> prefix ''0x'' (bytes_hex bs)"
proof -
  have digits: "\<forall>i<length bs.
      of_char (bytes_hex bs ! (2 * i)) = lower_hex_code (unat (bs ! i) div 16) \<and>
      of_char (bytes_hex bs ! (2 * i + 1)) = lower_hex_code (unat (bs ! i) mod 16)"
    using nth_bytes_hex [of _ bs] byte_nibbles
    by (simp add: of_char_hex_digit)
  have "\<not> prefix ''0x'' (bytes_hex bs)"
  proof
    assume "prefix ''0x'' (bytes_hex bs)"
    then have "set ''0x'' \<subseteq> set (bytes_hex bs)" by (rule set_mono_prefix)
    with set_bytes_hex [of bs] have "CHR ''x'' \<in> set ''0123456789abcdef''" by auto
    then show False by simp
  qed
  then show ?thesis using set_bytes_hex [of bs] digits by (simp add: length_bytes_hex)
qed

text \<open>
  C9 at three bytes, the last with a leading zero digit: the string is \<^verbatim>\<open>dead0b\<close>, and
  its third character has the code of the letter \<^verbatim>\<open>a\<close>.
\<close>

theorem bytes_encoded_as_lowercase_hex_witness:
  "BytesJsonEncoder_default (PBytes [0xDE, 0xAD, 0x0B]) = Inr (PStr ''dead0b'') \<and>
   of_char (bytes_hex [0xDE, 0xAD, 0x0B] ! 2) = (97 :: nat)"
proof -
  have v: "bytes_hex [0xDE, 0xAD, 0x0B] = ''dead0b''" by code_simp
  from bytes_encoded_as_lowercase_hex [of "[0xDE, 0xAD, 0x0B]"]
  have e: "BytesJsonEncoder_default (PBytes [0xDE, 0xAD, 0x0B]) =
          Inr (PStr (bytes_hex [0xDE, 0xAD, 0x0B]))"
    and d: "\<forall>i<length [0xDE, 0xAD, 0x0B :: 8 word].
           of_char (bytes_hex [0xDE, 0xAD, 0x0B] ! (2 * i)) =
             lower_hex_code (unat ([0xDE, 0xAD, 0x0B :: 8 word] ! i) div 16) \<and>
           of_char (bytes_hex [0xDE, 0xAD, 0x0B] ! (2 * i + 1)) =
             lower_hex_code (unat ([0xDE, 0xAD, 0x0B :: 8 word] ! i) mod 16)"
    by blast+
  from d [rule_format, of 1]
  have "of_char (bytes_hex [0xDE, 0xAD, 0x0B] ! 2) = lower_hex_code 10" by simp
  then have "of_char (bytes_hex [0xDE, 0xAD, 0x0B] ! 2) = (97 :: nat)"
    by (simp add: lower_hex_code_def)
  moreover from e v
  have "BytesJsonEncoder_default (PBytes [0xDE, 0xAD, 0x0B]) = Inr (PStr ''dead0b'')"
    by (simp only:)
  ultimately show ?thesis by blast
qed

section \<open>The three modes\<close>

text \<open>
  Claim C10: when a time \<open>T\<close> is resolved and the file at the output path parses to a falsy
  value, the run is the run of generate mode: the configuration is the one the generation
  collaborator returns for the profile and \<open>T\<close> (or its error), whatever the update
  collaborator would do, and it goes on to be reported and written.
\<close>

theorem falsy_existing_takes_generate_mode:
  assumes "resolve_genesis_time (genesis_time a) (genesis_delay a) (clock w) = Some T"
    and "node_at (files w) (output_file_path E a) = Some (File text)"
    and "json_load E text = Loaded v"
    and "\<not> truthy v"
  shows "\<exists>w3. files w3 = files w \<and> clock w3 = clock w \<and>
           generate_network_as_json E a w =
             (case generate_genesis_config E (config_profile a) T of
                Inl e \<Rightarrow> Inl e
              | Inr cfg \<Rightarrow> report_and_write E w3 (output_file_path E a) cfg)"
proof -
  let ?p = "output_file_path E a"
  have ld: "load_existing E (announced a w) ?p = Inr (Some v, announced a w)"
    using assms(2,3) by (simp add: load_existing_def announced_def open_read_def path_exists_def)
  have b: "build_genesis_config E a (files (announced a w)) (Some v)
             (resolve_genesis_time (genesis_time a) (genesis_delay a) (clock (announced a w)))
           = generate_genesis_config E (config_profile a) T"
    using assms(1,4) resolve_Some_truthy [OF assms(1)]
    by (auto simp: build_genesis_config_def announced_def)
  let ?w3 = "snd (resolve_time_step a (announced a w))"
  have "files ?w3 = files w" "clock ?w3 = clock w" by (simp_all add: announced_def)
  moreover have "generate_network_as_json E a w =
      (case generate_genesis_config E (config_profile a) T of
         Inl e \<Rightarrow> Inl e
       | Inr cfg \<Rightarrow> report_and_write E ?w3 ?p cfg)"
    by (simp add: run_unfold ld b)
  ultimately show ?thesis by blast
qed

text \<open>
  Claim C4, for the update collaborator modelled from the spec: when the file at the output
  path parses to a document with \<^verbatim>\<open>genesis_state.genesis_time\<close> \<open>T1\<close> and a state
  root, and a time \<open>T2\<close> is resolved, the run succeeds and writes a document whose
  \<^verbatim>\<open>genesis_state.genesis_time\<close> is \<open>T2\<close>, whose state root and every other top-level
  field are those of the existing document, and whose \<^verbatim>\<open>genesis_state\<close> differs from
  the existing one in the time only; the keys keep their order.
\<close>

theorem update_mode_restamps_time:
  assumes upd: "update_genesis_config_with_time E = spec_update_genesis_config_with_time"
    and fl: "node_at (files w) (output_file_path E a) = Some (File text)"
    and jl: "json_load E text = Loaded (PDict kvs)"
    and native: "json_native (PDict kvs)"
    and gs: "map_of kvs ''genesis_state'' = Some (PDict st)"
    and gt: "map_of st ''genesis_time'' = Some (PInt T1)"
    and gr: "map_of kvs ''genesis_state_root'' = Some root"
    and res: "resolve_genesis_time (genesis_time a) (genesis_delay a) (clock w) = Some T2"
    and fmt: "strftime_localtime E (PInt T2) = Inr human"
    and wf: "wf_fs (files w)"
  shows "\<exists>w' kvs' st'.
           generate_network_as_json E a w = Inr w' \<and>
           node_at (files w') (output_file_path E a) = Some (File (json_text E (PDict kvs'))) \<and>
           map_of kvs' ''genesis_state'' = Some (PDict st') \<and>
           map_of st' ''genesis_time'' = Some (PInt T2) \<and>
           map_of kvs' ''genesis_state_root'' = Some root \<and>
           (\<forall>k. k \<noteq> ''genesis_state'' \<longrightarrow> map_of kvs' k = map_of kvs k) \<and>
           (\<forall>k. k \<noteq> ''genesis_time'' \<longrightarrow> map_of st' k = map_of st k) \<and>
           map fst kvs' = map fst kvs \<and> map fst st' = map fst st"
proof -
  let ?p = "output_file_path E a"
  let ?st' = "AList.update ''genesis_time'' (PInt T2) st"
  let ?kvs' = "AList.update ''genesis_state'' (PDict ?st') kvs"
  let ?cfg = "PDict ?kvs'"
  from fl obtain c rest where p: "?p = c # rest" and fp: "files w (c # rest) = Some (File text)"
    by (cases ?p) (auto simp: node_at_def)
  have kne: "kvs \<noteq> []" using gs by auto
  have ld: "load_existing E (announced a w) ?p = Inr (Some (PDict kvs), announced a w)"
    using fl jl by (simp add: load_existing_def announced_def open_read_def path_exists_def)
  have b: "build_genesis_config E a (files (announced a w)) (Some (PDict kvs))
             (resolve_genesis_time (genesis_time a) (genesis_delay a) (clock (announced a w)))
           = Inr ?cfg"
    using res kne gs resolve_Some_truthy [OF res]
    by (auto simp: build_genesis_config_def announced_def upd)
  let ?w3 = "snd (resolve_time_step a (announced a w))"
  have f3: "files ?w3 = files w" by (simp add: announced_def)
  have nat_st: "json_native (PDict st)" using json_native_items_lookup [OF _ gs] native by simp
  have nat_cfg: "json_native ?cfg"
    using native nat_st by (simp add: json_native_items_update)
  have g1: "getitem ?cfg ''genesis_state'' = Inr (PDict ?st')"
    by (simp add: map_of_update_same)
  have g2: "getitem (PDict ?st') ''genesis_time'' = Inr (PInt T2)"
    by (simp add: map_of_update_same)
  have g3: "getitem ?cfg ''genesis_state_root'' = Inr root"
    using gr by (simp add: map_of_update_other)
  have nf: "no_file_on (files ?w3) (parent ?p)"
    using wf_fs_existing_no_file_on [OF wf, of c rest] fp p f3 by simp
  have nd: "\<not> is_dir (files ?w3) ?p" using fp p f3 by (simp add: is_dir_def)
  have "\<exists>w'. report_and_write E ?w3 ?p ?cfg = Inr w' \<and>
           files w' = (with_dirs (files ?w3) (parent ?p))(?p \<mapsto> File (json_text E ?cfg)) \<and>
           clock w' = clock ?w3 \<and> set (logs ?w3) \<subseteq> set (logs w')"
  proof (rule report_and_write_ok [OF g1 g2 g3 fmt encode_native [OF nat_cfg] _ nf nd])
    show "wf_fs (files ?w3)" using wf f3 by simp
  qed
  then obtain w' where rw: "report_and_write E ?w3 ?p ?cfg = Inr w'"
    and fw: "files w' = (with_dirs (files ?w3) (parent ?p))(?p \<mapsto> File (json_text E ?cfg))"
    by blast
  have run: "generate_network_as_json E a w = Inr w'"
    by (simp add: run_unfold ld b rw)
  have node: "node_at (files w') ?p = Some (File (json_text E ?cfg))"
    using fw p by (simp add: node_at_def)
  have k1: "map_of ?kvs' ''genesis_state'' = Some (PDict ?st')" by (simp add: map_of_update_same)
  have k2: "map_of ?st' ''genesis_time'' = Some (PInt T2)" by (simp add: map_of_update_same)
  have k3: "map_of ?kvs' ''genesis_state_root'' = Some root" using gr by (simp add: map_of_update_other)
  have k4: "\<forall>k. k \<noteq> ''genesis_state'' \<longrightarrow> map_of ?kvs' k = map_of kvs k"
    by (simp add: map_of_update_other)
  have k5: "\<forall>k. k \<noteq> ''genesis_time'' \<longrightarrow> map_of ?st' k = map_of st k"
    by (simp add: map_of_update_other)
  have k6: "map fst ?kvs' = map fst kvs" using gs by (rule keys_update_present)
  have k7: "map fst ?st' = map fst st" using gt by (rule keys_update_present)
  from run node k1 k2 k3 k4 k5 k6 k7 show ?thesis by blast
qed


lemma no_file_on_suffix: "no_file_on fs q \<Longrightarrow> suffix d q \<Longrightarrow> no_file_on fs d"
  by (induction q) (auto simp: suffix_Cons)

lemma with_dirs_is_dir:
  assumes "no_file_on fs q" and "suffix d q"
  shows "is_dir (with_dirs fs q) d"
proof (cases d)
  case Nil
  then show ?thesis by (simp add: is_dir_def)
next
  case (Cons c r)
  from no_file_on_suffix [OF assms] Cons have "\<not> is_file fs (c # r)" by simp
  then show ?thesis using assms(2) Cons
    by (auto simp: with_dirs_def is_dir_def is_file_def split: option.splits node.splits)
qed

text \<open>
  Claim C8: the write of lines 126 to 128 succeeds whenever no regular file stands in the
  place of a parent directory and the output path is not itself a directory, be the parent
  directories there or not. Afterwards the output path holds the serialized configuration,
  whatever it held before, every parent directory exists, and nothing else that existed
  has changed.
\<close>

theorem write_creates_parents_and_overwrites:
  assumes "wf_fs fs" and "no_file_on fs (parent p)" and "\<not> is_dir fs p"
    and "encode_tree cfg = Inr native"
  shows "\<exists>fs'. write_output E fs p cfg = Inr fs' \<and>
           node_at fs' p = Some (File (json_text E native)) \<and>
           (\<forall>d. suffix d (parent p) \<longrightarrow> is_dir fs' d) \<and>
           (\<forall>q. q \<noteq> p \<and> fs q \<noteq> None \<longrightarrow> fs' q = fs q) \<and>
           (\<forall>q. q \<noteq> p \<and> \<not> suffix q (parent p) \<longrightarrow> fs' q = fs q)"
proof -
  let ?fs' = "(with_dirs fs (parent p))(p \<mapsto> File (json_text E native))"
  from assms(3) obtain c rest where p: "p = c # rest" by (cases p) (auto simp: is_dir_def)
  have w: "write_output E fs p cfg = Inr ?fs'" using assms by (rule write_output_ok)
  have n: "node_at ?fs' p = Some (File (json_text E native))" using p by simp
  have d: "\<forall>d. suffix d (parent p) \<longrightarrow> is_dir ?fs' d"
  proof (intro allI impI)
    fix d assume s: "suffix d (parent p)"
    then have "d \<noteq> p" using p by auto
    moreover have "is_dir (with_dirs fs (parent p)) d" using assms(2) s by (rule with_dirs_is_dir)
    ultimately show "is_dir ?fs' d" by (auto simp: is_dir_def node_at_def)
  qed
  have k: "\<forall>q. q \<noteq> p \<and> fs q \<noteq> None \<longrightarrow> ?fs' q = fs q"
    by (simp add: with_dirs_def)
  have f: "\<forall>q. q \<noteq> p \<and> \<not> suffix q (parent p) \<longrightarrow> ?fs' q = fs q"
    by (simp add: with_dirs_def)
  from w n d k f show ?thesis by blast
qed


section \<open>The local variable that is not always bound\<close>

text \<open>
  Claim C1 does not hold of the code. With a resolved time and no file at the output path
  the run builds nothing: lines 89 to 95 bind \<^verbatim>\<open>existing_genesis_config\<close> only when the
  file exists, the condition of line 106 reads it, and the run ends in
  \<^verbatim>\<open>UnboundLocalError\<close> before any collaborator is called.
\<close>

theorem generate_raises_without_file:
  assumes "\<not> path_exists (files w) (output_file_path E a)"
    and "resolve_genesis_time (genesis_time a) (genesis_delay a) (clock w) = Some T"
  shows "generate_network_as_json E a w = Inl (UnboundLocalError ''existing_genesis_config'')"
proof -
  let ?p = "output_file_path E a"
  have "load_existing E (announced a w) ?p = Inr (None, announced a w)"
    using assms(1) by (simp add: load_existing_def announced_def)
  moreover have "arg_truthy (genesis_time a) \<or> arg_truthy (genesis_delay a)"
    using assms(2) by (rule resolve_Some_truthy)
  then have "build_genesis_config E a fs None t =
               Inl (UnboundLocalError ''existing_genesis_config'')" for fs t
    by (auto simp: build_genesis_config_def)
  ultimately show ?thesis by (simp add: run_unfold)
qed

text \<open>
  C1 at \<^verbatim>\<open>--genesis-delay 600 --output /tmp/net/genesis.json\<close> with no file there.
\<close>

theorem generate_raises_without_file_witness:
  "\<not> path_exists (files (example_world None)) (output_file_path example_env example_args) \<and>
   resolve_genesis_time (genesis_time example_args) (genesis_delay example_args)
     (clock (example_world None)) = Some 1700000600 \<and>
   generate_network_as_json example_env example_args (example_world None) =
     Inl (UnboundLocalError ''existing_genesis_config'')"
proof -
  have h1: "\<not> path_exists (files (example_world None)) (output_file_path example_env example_args)"
    by (simp add: path_exists_def)
  have h2: "resolve_genesis_time (genesis_time example_args) (genesis_delay example_args)
     (clock (example_world None)) = Some 1700000600"
    by (rule example_resolve)
  from generate_raises_without_file [OF h1 h2] h1 h2 show ?thesis by blast
qed


lemma example_strftime:
  "strftime_localtime example_env (PInt t) = Inr ''2023-11-14 10:13+0000''"
  by (simp add: example_env_def)

lemma example_profile [simp]: "config_profile example_args = ''minimal''"
  "config_profile state_file_args = ''minimal''"
  by (simp_all add: example_args_def state_file_args_def)

section \<open>The theorems at concrete inputs\<close>

text \<open>C10 at an output file holding the empty object.\<close>

theorem falsy_existing_takes_generate_mode_witness:
  "resolve_genesis_time (genesis_time example_args) (genesis_delay example_args)
     (clock (example_world (Some (File ''{}'')))) = Some 1700000600 \<and>
   node_at (files (example_world (Some (File ''{}''))))
     (output_file_path example_env example_args) = Some (File ''{}'') \<and>
   json_load example_env ''{}'' = Loaded (PDict []) \<and>
   \<not> truthy (PDict []) \<and>
   (\<exists>w3. files w3 = files (example_world (Some (File ''{}''))) \<and>
      clock w3 = clock (example_world (Some (File ''{}''))) \<and>
      generate_network_as_json example_env example_args (example_world (Some (File ''{}''))) =
        (case generate_genesis_config example_env (config_profile example_args) 1700000600 of
           Inl e \<Rightarrow> Inl e
         | Inr cfg \<Rightarrow>
             report_and_write example_env w3 (output_file_path example_env example_args) cfg))"
proof -
  let ?w = "example_world (Some (File ''{}''))"
  have h1: "resolve_genesis_time (genesis_time example_args) (genesis_delay example_args)
     (clock ?w) = Some 1700000600" by (rule example_resolve)
  have h2: "node_at (files ?w) (output_file_path example_env example_args) = Some (File ''{}'')"
    by simp
  have h3: "json_load example_env ''{}'' = Loaded (PDict [])" by (simp add: example_env_def)
  have h4: "\<not> truthy (PDict [])" by simp
  from falsy_existing_takes_generate_mode [OF h1 h2 h3 h4] h1 h2 h3 h4 show ?thesis by blast
qed

text \<open>C8 on an empty file system: \<^verbatim>\<open>/tmp\<close> and \<^verbatim>\<open>/tmp/net\<close> are created.\<close>

theorem write_creates_parents_and_overwrites_witness:
  "wf_fs Map.empty \<and>
   no_file_on Map.empty (parent [''genesis.json'', ''net'', ''tmp'']) \<and>
   \<not> is_dir Map.empty [''genesis.json'', ''net'', ''tmp''] \<and>
   \<not> path_exists Map.empty [''net'', ''tmp''] \<and>
   (\<exists>fs'. write_output example_env Map.empty [''genesis.json'', ''net'', ''tmp'']
             (fresh_config ''minimal'' 1700000600) = Inr fs' \<and>
          is_file fs' [''genesis.json'', ''net'', ''tmp''] \<and>
          is_dir fs' [''net'', ''tmp''] \<and> is_dir fs' [''tmp''])"
proof -
  let ?p = "[''genesis.json'', ''net'', ''tmp'']"
  have h1: "wf_fs Map.empty" by (simp add: wf_fs_def)
  have h2: "no_file_on Map.empty (parent ?p)" by (simp add: is_file_def)
  have h3: "\<not> is_dir Map.empty ?p" by (simp add: is_dir_def)
  have h4: "\<not> path_exists Map.empty [''net'', ''tmp'']" by (simp add: path_exists_def)
  from write_creates_parents_and_overwrites [OF h1 h2 h3 example_fresh(4), of example_env]
  obtain fs' where w: "write_output example_env Map.empty ?p (fresh_config ''minimal'' 1700000600) = Inr fs'"
    and n: "node_at fs' ?p = Some (File (json_text example_env
            (PDict [(''profile'', PStr ''minimal''),
                 (''genesis_state'', PDict [(''genesis_time'', PInt 1700000600), (''slot'', PInt 0)]),
                 (''genesis_state_root'', PStr ''cafe'')])))"
    and d: "\<forall>d. suffix d (parent ?p) \<longrightarrow> is_dir fs' d"
    by blast
  have "suffix [''net'', ''tmp''] (parent ?p)" "suffix [''tmp''] (parent ?p)"
    by (simp_all add: suffix_Cons)
  with d have "is_dir fs' [''net'', ''tmp'']" "is_dir fs' [''tmp'']" by blast+
  moreover from n have "is_file fs' ?p" by (simp add: is_file_def)
  ultimately show ?thesis using h1 h2 h3 h4 w by blast
qed


text \<open>
  C4 at \<^verbatim>\<open>--genesis-time 1700000000\<close> over an existing document with the time
  1600000000 and the state root \<^verbatim>\<open>deadbeef\<close>.
\<close>

theorem update_mode_restamps_time_witness:
  "update_genesis_config_with_time example_env = spec_update_genesis_config_with_time \<and>
   node_at (files (example_world (Some (File old_text))))
     (output_file_path example_env explicit_time_args) = Some (File old_text) \<and>
   json_load example_env old_text = Loaded old_config \<and>
   json_native old_config \<and>
   resolve_genesis_time (genesis_time explicit_time_args) (genesis_delay explicit_time_args)
     (clock (example_world (Some (File old_text)))) = Some 1700000000 \<and>
   wf_fs (files (example_world (Some (File old_text)))) \<and>
   (\<exists>w' kvs' st'.
      generate_network_as_json example_env explicit_time_args
        (example_world (Some (File old_text))) = Inr w' \<and>
      node_at (files w') (output_file_path example_env explicit_time_args) =
        Some (File (json_text example_env (PDict kvs'))) \<and>
      map_of kvs' ''genesis_state'' = Some (PDict st') \<and>
      map_of st' ''genesis_time'' = Some (PInt 1700000000) \<and>
      map_of st' ''slot'' = Some (PInt 0) \<and>
      map_of kvs' ''genesis_state_root'' = Some (PStr ''deadbeef'') \<and>
      map_of kvs' ''profile'' = Some (PStr ''minimal''))"
proof -
  let ?w = "example_world (Some (File old_text))"
  let ?p = "output_file_path example_env explicit_time_args"
  let ?kvs = "[(''profile'', PStr ''minimal''),
            (''genesis_state'', PDict [(''genesis_time'', PInt 1600000000), (''slot'', PInt 0)]),
            (''genesis_state_root'', PStr ''deadbeef'')]"
  let ?st = "[(''genesis_time'', PInt 1600000000), (''slot'', PInt 0)]"
  have h1: "update_genesis_config_with_time example_env = spec_update_genesis_config_with_time"
    by (simp add: example_env_def)
  have h2: "node_at (files ?w) ?p = Some (File old_text)" by simp
  have h3: "json_load example_env old_text = Loaded (PDict ?kvs)"
    by (simp add: example_env_def old_text_def old_config_def)
  have h4: "json_native (PDict ?kvs)" by simp
  have h5: "map_of ?kvs ''genesis_state'' = Some (PDict ?st)" by simp
  have h6: "map_of ?st ''genesis_time'' = Some (PInt 1600000000)" by simp
  have h7: "map_of ?kvs ''genesis_state_root'' = Some (PStr ''deadbeef'')" by simp
  have h8: "resolve_genesis_time (genesis_time explicit_time_args)
     (genesis_delay explicit_time_args) (clock ?w) = Some 1700000000" by (rule example_resolve)
  have h9: "strftime_localtime example_env (PInt 1700000000) = Inr ''2023-11-14 10:13+0000''"
    by (rule example_strftime)
  have h10: "wf_fs (files ?w)" by (simp add: example_world_def wf_example)
  from update_mode_restamps_time [OF h1 h2 h3 h4 h5 h6 h7 h8 h9 h10]
  obtain w' kvs' st' where
    r: "generate_network_as_json example_env explicit_time_args ?w = Inr w'"
    and n: "node_at (files w') ?p = Some (File (json_text example_env (PDict kvs')))"
    and k1: "map_of kvs' ''genesis_state'' = Some (PDict st')"
    and k2: "map_of st' ''genesis_time'' = Some (PInt 1700000000)"
    and k3: "map_of kvs' ''genesis_state_root'' = Some (PStr ''deadbeef'')"
    and k4: "\<forall>k. k \<noteq> ''genesis_state'' \<longrightarrow> map_of kvs' k = map_of ?kvs k"
    and k5: "\<forall>k. k \<noteq> ''genesis_time'' \<longrightarrow> map_of st' k = map_of ?st k"
    by blast
  from k4 have p: "map_of kvs' ''profile'' = Some (PStr ''minimal'')" by simp
  from k5 have s: "map_of st' ''slot'' = Some (PInt 0)" by simp
  have h3': "json_load example_env old_text = Loaded old_config" "json_native old_config"
    using h3 h4 by (simp_all add: old_config_def)
  from r n k1 k2 k3 p s h1 h2 h3' h8 h10 show ?thesis by blast
qed




end
